theory Spec2Isabelle
  imports Main "HOL-Library.Word"
begin

section \<open>Shellfish: the command-line front end (shellfish.go)\<close>

text \<open>
  The theory follows \<^verbatim>\<open>src/shellfish.go\<close> function by function. Go strings are byte
  strings, modelled as \<^typ>\<open>string\<close>; a Go \<^verbatim>\<open>error\<close> value is modelled by its message; an
  error return is the left injection of a sum; a run-time panic is a value of its own.
\<close>

subsection \<open>Go values\<close>

text \<open>The message of a Go \<^verbatim>\<open>error\<close>.\<close>

type_synonym error = string

text \<open>A computation that either completes with a value or panics with a message.\<close>

datatype 'a outcome = Done 'a | Panic string

text \<open>The newline byte, written \<^verbatim>\<open>\n\<close> in the Go literals.\<close>

definition nl :: string where
  "nl = [CHR 0x0A]"

text \<open>
  The slice expression \<^verbatim>\<open>xs[lo:hi]\<close> over integer bounds. Go panics unless
  \<^verbatim>\<open>0 <= lo <= hi <= cap(xs)\<close>; the argument vector has no spare capacity, so the
  capacity is the length.
\<close>

definition slice :: "'a list \<Rightarrow> int \<Rightarrow> int \<Rightarrow> 'a list outcome" where
  "slice xs lo hi =
     (if 0 \<le> lo \<and> lo \<le> hi \<and> hi \<le> int (length xs)
      then Done (take (nat (hi - lo)) (drop (nat lo) xs))
      else Panic ''slice bounds out of range'')"

subsection \<open>Argument classifier (lines 241--315)\<close>

text \<open>\<^verbatim>\<open>isConfig\<close>: \<^verbatim>\<open>len(s) >= 7 && s[len(s)-7:] == ".config"\<close>.\<close>

definition isConfig :: "string \<Rightarrow> bool" where
  "isConfig s \<longleftrightarrow> 7 \<le> length s \<and> drop (length s - 7) s = ''.config''"

text \<open>
  The loop of \<^verbatim>\<open>configNum\<close>: \<^verbatim>\<open>for i := len(args)-1; i >= 0; i--\<close>. The second argument
  is \<open>i + 1\<close>, so \<open>0\<close> is the loop's exit at \<open>i = -1\<close>; the third is \<^verbatim>\<open>num\<close>.
\<close>

fun configNum_loop :: "string list \<Rightarrow> nat \<Rightarrow> nat \<Rightarrow> nat" where
  "configNum_loop args 0 num = num"
| "configNum_loop args (Suc i) num =
     (if isConfig (args ! i) then configNum_loop args i (num + 1) else num)"

definition configNum :: "string list \<Rightarrow> nat" where
  "configNum args = configNum_loop args (length args) 0"

text \<open>\<^verbatim>\<open>getFlags\<close>: \<^verbatim>\<open>args[1 : len(args)-1-configNum(args)]\<close>.\<close>

definition getFlags :: "string list \<Rightarrow> string list outcome" where
  "getFlags args = slice args 1 (int (length args) - 1 - int (configNum args))"

text \<open>
  \<^verbatim>\<open>getConfig\<close>. The first argument is the value of
  \<^verbatim>\<open>os.Getenv("SHELLFISH_GLOBAL_CONFIG")\<close>, the empty string when the variable is unset.
\<close>

definition getConfig :: "string \<Rightarrow> string list \<Rightarrow> string \<times> bool" where
  "getConfig env args =
     (if env \<noteq> [] \<and> configNum args = 1 then (args ! (length args - 1), True)
      else if env = [] \<and> configNum args = 2 then (args ! (length args - 1), True)
      else ([], False))"

text \<open>
  The flag sub-list as section 4.1 of the specification words it: the tokens strictly
  between the mode name (index 1) and the trailing run of configuration-file tokens.
\<close>

definition spec_flags :: "string list \<Rightarrow> string list" where
  "spec_flags args = take (length args - 2 - configNum args) (drop 2 args)"

subsection \<open>The global configuration\<close>

text \<open>
  \<^verbatim>\<open>cmd.GlobalConfig\<close> is declared in package \<^verbatim>\<open>cmd\<close>, outside \<^verbatim>\<open>shellfish.go\<close>. The
  record holds the fields that \<^verbatim>\<open>shellfish.go\<close> reads: the seventeen compared by
  \<^verbatim>\<open>configEqual\<close>, \<^verbatim>\<open>TreeType\<close> (read by \<^verbatim>\<open>initHalos\<close>), \<^verbatim>\<open>ValidateFormats\<close> (read by
  \<^verbatim>\<open>initCatalogs\<close>) and \<^verbatim>\<open>Threads\<close> (named by the comment of \<^verbatim>\<open>configEqual\<close>). The slices
  passed to \<^verbatim>\<open>int64sEqual\<close> and \<^verbatim>\<open>stringsEqual\<close> have the element types of those
  functions; the fields compared with string literals are strings; the remaining
  fields are only ever compared with \<^verbatim>\<open>==\<close>.
\<close>

record GlobalConfig =
  Version :: string
  SnapshotFormat :: string
  SnapshotType :: string
  HaloDir :: string
  HaloType :: string
  TreeDir :: string
  TreeType :: string
  MemoDir :: string
  BlockMins :: "64 word list"
  BlockMaxes :: "64 word list"
  SnapMin :: "64 word"
  SnapMax :: "64 word"
  SnapshotFormatMeanings :: "string list"
  HaloPositionUnits :: string
  HaloMassUnits :: string
  HaloValueColumns :: "64 word list"
  HaloValueNames :: "string list"
  Endianness :: string
  ValidateFormats :: bool
  Threads :: "64 word"

subsection \<open>Cache-validity equality (lines 368--413)\<close>

text \<open>
  The loop \<^verbatim>\<open>for i := range xs { if xs[i] != ys[i] { return false } }\<close> over the list of
  indices still to visit.
\<close>

fun elems_loop :: "'a list \<Rightarrow> 'a list \<Rightarrow> nat list \<Rightarrow> bool" where
  "elems_loop xs ys [] = True"
| "elems_loop xs ys (i # is) = (if xs ! i \<noteq> ys ! i then False else elems_loop xs ys is)"

definition int64sEqual :: "64 word list \<Rightarrow> 64 word list \<Rightarrow> bool" where
  "int64sEqual xs ys =
     (if length xs \<noteq> length ys then False else elems_loop xs ys [0..<length xs])"

definition stringsEqual :: "string list \<Rightarrow> string list \<Rightarrow> bool" where
  "stringsEqual xs ys =
     (if length xs \<noteq> length ys then False else elems_loop xs ys [0..<length xs])"

definition configEqual :: "GlobalConfig \<Rightarrow> GlobalConfig \<Rightarrow> bool" where
  "configEqual m c \<longleftrightarrow>
     Version c = Version m \<and>
     SnapshotFormat c = SnapshotFormat m \<and>
     SnapshotType c = SnapshotType m \<and>
     HaloDir c = HaloDir m \<and>
     HaloType c = HaloType m \<and>
     TreeDir c = TreeDir m \<and>
     MemoDir c = MemoDir m \<and>
     int64sEqual (BlockMins c) (BlockMins m) \<and>
     int64sEqual (BlockMaxes c) (BlockMaxes m) \<and>
     SnapMin c = SnapMin m \<and>
     SnapMax c = SnapMax m \<and>
     stringsEqual (SnapshotFormatMeanings c) (SnapshotFormatMeanings m) \<and>
     HaloPositionUnits c = HaloPositionUnits m \<and>
     HaloMassUnits c = HaloMassUnits m \<and>
     int64sEqual (HaloValueColumns c) (HaloValueColumns m) \<and>
     stringsEqual (HaloValueNames c) (HaloValueNames m) \<and>
     Endianness c = Endianness m"

subsection \<open>Files\<close>

text \<open>
  The part of the file system the program touches: the regular files by path, and for
  each path the error \<^verbatim>\<open>os.Create\<close> gives there (\<open>None\<close> when it succeeds).
  \<^verbatim>\<open>os.Stat\<close> and \<^verbatim>\<open>os.Open\<close> succeed exactly on the paths that hold a file; \<^verbatim>\<open>io.Copy\<close>
  and \<^verbatim>\<open>Sync\<close> on open files are taken to succeed.
\<close>

record fsys =
  contents :: "string \<rightharpoonup> string"
  createErr :: "string \<Rightarrow> error option"

text \<open>
  Modelled from the spec: \<^verbatim>\<open>(*cmd.GlobalConfig).ReadConfig\<close> is code of package \<^verbatim>\<open>cmd\<close>,
  outside \<^verbatim>\<open>shellfish.go\<close>. Section 3 says the configuration is "loaded from a key-value
  text file", section 4.2 that "a malformed or unreadable file is a fatal error": the
  named file is read and its text parsed; the parser is the parameter \<open>parse\<close>.
\<close>

definition ReadConfig ::
  "(string \<Rightarrow> error + GlobalConfig) \<Rightarrow> fsys \<Rightarrow> string \<Rightarrow> error + GlobalConfig" where
  "ReadConfig parse fs name =
     (case contents fs name of
        None \<Rightarrow> Inl (''open '' @ name @ '': no such file or directory'')
      | Some txt \<Rightarrow> parse txt)"

subsection \<open>Global configuration resolver (lines 246--283)\<close>

text \<open>
  \<^verbatim>\<open>getGlobalConfig\<close>. The first argument is \<^verbatim>\<open>ReadConfig\<close> by file name, the second the
  value of \<^verbatim>\<open>os.Getenv("SHELLFISH_GLOBAL_CONFIG")\<close>. The Go function returns
  \<^verbatim>\<open>(name, config, err)\<close>; an error return is \<open>Inl\<close>.
\<close>

definition getGlobalConfig ::
  "(string \<Rightarrow> error + GlobalConfig) \<Rightarrow> string \<Rightarrow> string list \<Rightarrow>
   error + (string \<times> GlobalConfig)" where
  "getGlobalConfig rd env args =
     (if env \<noteq> [] then
        (if 1 < configNum args
         then Inl (''$SHELLFISH_GLOBAL_CONFIG has been set, so you may only pass a single config file as a parameter.'')
         else (case rd env of Inl err \<Rightarrow> Inl err | Inr config \<Rightarrow> Inr (env, config)))
      else if configNum args = 0
        then Inl ''No config files provided in command line arguments.''
      else if configNum args = 1
        then (case rd (args ! (length args - 1)) of
                Inl err \<Rightarrow> Inl err
              | Inr config \<Rightarrow> Inr (args ! (length args - 1), config))
      else if configNum args = 2
        then (case rd (args ! (length args - 2)) of
                Inl err \<Rightarrow> Inl err
              | Inr config \<Rightarrow> Inr (args ! (length args - 2), config))
      else Inl ''Passed too many config files as arguments.'')"

subsection \<open>Memoization guard (lines 317--366)\<close>

text \<open>
  \<^verbatim>\<open>copyFile(dst, src)\<close>: open \<^verbatim>\<open>src\<close>, create (and truncate) \<^verbatim>\<open>dst\<close>, copy. Creating the
  file that is being read truncates it before the copy.
\<close>

definition copyFile :: "fsys \<Rightarrow> string \<Rightarrow> string \<Rightarrow> error option \<times> fsys" where
  "copyFile fs dst src =
     (case contents fs src of
        None \<Rightarrow> (Some (''open '' @ src @ '': no such file or directory''), fs)
      | Some txt \<Rightarrow>
          (case createErr fs dst of
             Some err \<Rightarrow> (Some err, fs)
           | None \<Rightarrow>
               (None, fs\<lparr>contents := (contents fs)(dst \<mapsto> (if dst = src then [] else txt))\<rparr>)))"

text \<open>The apostrophe of the Go message literals.\<close>

definition apo :: string where
  "apo = [CHR 0x27]"

text \<open>The message of the \<^verbatim>\<open>fmt.Errorf\<close> at lines 339--343.\<close>

definition mismatchError :: "string \<Rightarrow> string \<Rightarrow> string \<Rightarrow> error" where
  "mismatchError configFile memoDir memoConfigFile =
     ''The variables in the config file '' @ apo @ configFile @ apo @
     '' do not match the varables used when creating the MemoDir, '' @ apo @ memoDir @
     ''.'' @ apo @ '' These variables can be compared by inspecting '' @ apo @ configFile @
     apo @ '' and '' @ apo @ memoConfigFile @ apo"

text \<open>
  \<^verbatim>\<open>checkMemoDir\<close>. \<open>join\<close> is \<^verbatim>\<open>path.Join\<close> of the Go library, \<open>parse\<close> the configuration
  parser. The result is the returned error (\<open>None\<close> for \<^verbatim>\<open>nil\<close>) and the file system
  the call leaves.
\<close>

definition checkMemoDir ::
  "(string \<Rightarrow> error + GlobalConfig) \<Rightarrow> (string \<Rightarrow> string \<Rightarrow> string) \<Rightarrow> fsys \<Rightarrow>
   string \<Rightarrow> string \<Rightarrow> error option \<times> fsys" where
  "checkMemoDir parse join fs memoDir configFile =
     (let memoConfigFile = join memoDir ''memo.config'' in
      if contents fs memoConfigFile = None then copyFile fs memoConfigFile configFile
      else
        (case ReadConfig parse fs configFile of
           Inl err \<Rightarrow> (Some err, fs)
         | Inr config \<Rightarrow>
             (case ReadConfig parse fs memoConfigFile of
                Inl err \<Rightarrow> (Some err, fs)
              | Inr memoConfig \<Rightarrow>
                  if \<not> configEqual config memoConfig
                  then (Some (mismatchError configFile memoDir memoConfigFile), fs)
                  else (None, fs))))"

subsection \<open>Backend initializer (lines 415--452)\<close>

text \<open>
  The environment handle \<^verbatim>\<open>env.Environment\<close> and its initializers are code of package
  \<^verbatim>\<open>env\<close>, outside \<^verbatim>\<open>shellfish.go\<close>: the handle is the type parameter \<open>'e\<close>, and each
  initializer is a parameter that takes the files, the configuration and the handle and
  gives the returned error and the handle it leaves. \<open>newEnvironment\<close> is the literal
  \<^verbatim>\<open>&env.Environment{MemoDir: gConfig.MemoDir}\<close>.
\<close>

record 'e backends =
  newEnvironment :: "string \<Rightarrow> 'e"
  InitGotetra :: "fsys \<Rightarrow> GlobalConfig \<Rightarrow> 'e \<Rightarrow> error option \<times> 'e"
  InitLGadget2 :: "fsys \<Rightarrow> GlobalConfig \<Rightarrow> 'e \<Rightarrow> error option \<times> 'e"
  InitARTIO :: "fsys \<Rightarrow> GlobalConfig \<Rightarrow> 'e \<Rightarrow> error option \<times> 'e"
  InitTextHalo :: "fsys \<Rightarrow> GlobalConfig \<Rightarrow> 'e \<Rightarrow> error option \<times> 'e"

text \<open>\<^verbatim>\<open>initCatalogs\<close>: a switch on \<^verbatim>\<open>SnapshotType\<close>, then \<^verbatim>\<open>panic("Impossible.")\<close>.\<close>

definition initCatalogs ::
  "'e backends \<Rightarrow> fsys \<Rightarrow> GlobalConfig \<Rightarrow> 'e \<Rightarrow> (error option \<times> 'e) outcome" where
  "initCatalogs b fs gConfig e =
     (if SnapshotType gConfig = ''gotetra'' then Done (InitGotetra b fs gConfig e)
      else if SnapshotType gConfig = ''LGadget-2'' then Done (InitLGadget2 b fs gConfig e)
      else if SnapshotType gConfig = ''ARTIO'' then Done (InitARTIO b fs gConfig e)
      else Panic ''Impossible.'')"

text \<open>
  \<^verbatim>\<open>initHalos\<close> is kept as the block of statements the source writes, each with its line
  number, and run by an interpreter of Go's control flow that records the lines it
  executes. Conditions and returned values are HOL terms; \<open>Return\<close>, \<open>PanicS\<close>, \<open>IfS\<close>
  and \<open>Switch\<close> are the statements \<^verbatim>\<open>return\<close>, \<^verbatim>\<open>panic\<close>, \<^verbatim>\<open>if\<close> without \<^verbatim>\<open>else\<close> and
  \<^verbatim>\<open>switch\<close> without \<^verbatim>\<open>default\<close> (a case is its line, whether it matches, and its body).
\<close>

datatype 'r stmt =
    Return nat 'r
  | PanicS nat string
  | IfS nat bool "'r stmt list"
  | Switch nat "(nat \<times> bool \<times> 'r stmt list) list"

datatype 'r flow = FellThrough | Returned 'r | Panicking string

text \<open>Sequencing: the second part runs only when the first falls through.\<close>

definition andThen :: "nat list \<times> 'r flow \<Rightarrow> nat list \<times> 'r flow \<Rightarrow> nat list \<times> 'r flow" where
  "andThen p q = (case snd p of FellThrough \<Rightarrow> (fst p @ fst q, snd q) | _ \<Rightarrow> p)"

fun exec :: "'r stmt list \<Rightarrow> nat list \<times> 'r flow"
  and exec_cases :: "(nat \<times> bool \<times> 'r stmt list) list \<Rightarrow> nat list \<times> 'r flow" where
  "exec [] = ([], FellThrough)"
| "exec (Return l r # rest) = ([l], Returned r)"
| "exec (PanicS l m # rest) = ([l], Panicking m)"
| "exec (IfS l c body # rest) =
     andThen (if c then andThen ([l], FellThrough) (exec body) else ([l], FellThrough))
       (exec rest)"
| "exec (Switch l cases # rest) =
     andThen (andThen ([l], FellThrough) (exec_cases cases)) (exec rest)"
| "exec_cases [] = ([], FellThrough)"
| "exec_cases ((l, c, body) # cs) =
     (if c then andThen ([l], FellThrough) (exec body) else exec_cases cs)"

text \<open>The body of \<^verbatim>\<open>initHalos\<close>, lines 418--439.\<close>

definition initHalos_body ::
  "'e backends \<Rightarrow> fsys \<Rightarrow> string \<Rightarrow> GlobalConfig \<Rightarrow> 'e \<Rightarrow> (error option \<times> 'e) stmt list" where
  "initHalos_body b fs mode gConfig e =
     [Switch 418
        [(419, mode = ''shell'' \<or> mode = ''stats'' \<or> mode = ''prof'',
          [Return 420 (None, e)])],
      Switch 423
        [(424, HaloType gConfig = ''nil'',
          [Return 425
             (Some (''You may not use nil as a HaloType for the mode '' @ apo @ mode @
                    ''.'' @ apo @ nl), e)]),
         (427, HaloType gConfig = ''Text'',
          [Return 428 (InitTextHalo b fs gConfig e),
           IfS 429 (TreeType gConfig \<noteq> ''consistent-trees'')
             [Return 430
                (Some (''You'' @ apo @ ''re trying to use the '' @ apo @ ''%!s(MISSING)'' @
                       apo @ '' TreeType with the '' @ apo @ ''Text'' @ apo @
                       '' HaloType.''), e)]])],
      IfS 434 (TreeType gConfig = ''nil'')
        [Return 435
           (Some (''You may not use nil as a TreeType for the mode '' @ apo @ mode @
                  ''.'' @ apo @ nl), e)],
      PanicS 439 ''Impossible'']"

definition initHalos ::
  "'e backends \<Rightarrow> fsys \<Rightarrow> string \<Rightarrow> GlobalConfig \<Rightarrow> 'e \<Rightarrow> (error option \<times> 'e) outcome" where
  "initHalos b fs mode gConfig e =
     (case snd (exec (initHalos_body b fs mode gConfig e)) of
        Returned r \<Rightarrow> Done r
      | Panicking m \<Rightarrow> Panic m
      | FellThrough \<Rightarrow> Panic ''missing return'')"

text \<open>The source lines a call of \<^verbatim>\<open>initHalos\<close> executes, in order.\<close>

definition initHalos_trace ::
  "'e backends \<Rightarrow> fsys \<Rightarrow> string \<Rightarrow> GlobalConfig \<Rightarrow> 'e \<Rightarrow> nat list" where
  "initHalos_trace b fs mode gConfig e = fst (exec (initHalos_body b fs mode gConfig e))"

subsection \<open>Standard input (lines 225--239)\<close>

text \<open>\<^verbatim>\<open>strings.Split(text, "\n")\<close>: the pieces between newlines, at least one.\<close>

fun split_nl :: "string \<Rightarrow> string list" where
  "split_nl [] = [[]]"
| "split_nl (c # cs) =
     (if c = CHR 0x0A then [] # split_nl cs
      else (case split_nl cs of [] \<Rightarrow> [[c]] | l # ls \<Rightarrow> (c # l) # ls))"

text \<open>
  \<^verbatim>\<open>stdinLines\<close>. The argument is what \<^verbatim>\<open>ioutil.ReadAll(os.Stdin)\<close> gives: an error or the
  bytes read.
\<close>

definition stdinLines :: "error + string \<Rightarrow> error + string list" where
  "stdinLines input =
     (case input of
        Inl err \<Rightarrow> Inl (''Error reading stdin: '' @ err @ ''.'')
      | Inr text \<Rightarrow>
          (let lines = split_nl text in
           if lines ! (length lines - 1) = [] then Inr (take (length lines - 1) lines)
           else Inr lines))"

subsection \<open>Mode dispatcher (lines 103--223)\<close>

text \<open>
  A mode of the registry \<^verbatim>\<open>cmd.ModeNames\<close> (package \<^verbatim>\<open>cmd\<close>, outside \<^verbatim>\<open>shellfish.go\<close>):
  \<^verbatim>\<open>ReadConfig(fname)\<close> gives an error or the mode's loaded configuration \<open>'c\<close>;
  \<^verbatim>\<open>Run(flags, gConfig, e, lines)\<close> gives an error or the output lines.
\<close>

record ('c, 'e) Mode =
  ReadModeConfig :: "fsys \<Rightarrow> string \<Rightarrow> error + 'c"
  Run :: "'c \<Rightarrow> fsys \<Rightarrow> string list \<Rightarrow> GlobalConfig \<Rightarrow> 'e \<Rightarrow> string list \<Rightarrow> error + string list"

text \<open>
  Everything \<^verbatim>\<open>main\<close> reads from outside \<^verbatim>\<open>shellfish.go\<close>: the mode registry, the help
  texts, the version string, the value of \<^verbatim>\<open>$SHELLFISH_GLOBAL_CONFIG\<close>, standard input,
  the files, the configuration parser, \<^verbatim>\<open>path.Join\<close> and the backends.
\<close>

record ('c, 'e) world =
  ModeNames :: "string \<rightharpoonup> ('c, 'e) Mode"
  helpStrings :: "string \<rightharpoonup> string"
  modeDescriptions :: string
  SourceVersion :: string
  globalConfigEnv :: string
  stdin :: "error + string"
  files :: fsys
  parseGlobal :: "string \<Rightarrow> error + GlobalConfig"
  pathJoin :: "string \<Rightarrow> string \<Rightarrow> string"
  backend :: "'e backends"

text \<open>
  What the process does: \<open>Println\<close> and \<open>Printf\<close> write to standard output (the first
  adds a newline), \<open>Eprintf\<close> is \<^verbatim>\<open>fmt.Fprintf(os.Stderr, ...)\<close> and \<open>Logf\<close> is
  \<^verbatim>\<open>log.Printf\<close>, each with the text after formatting. In
  \<^verbatim>\<open>fmt.Fprintf(os.Stderr, err.Error())\<close> the message is itself the format; it is taken
  to hold no formatting verb.
\<close>

datatype event = Println string | Printf string | Eprintf string | Logf string

text \<open>
  How the process ends: \<^verbatim>\<open>os.Exit(n)\<close> (or the return from \<^verbatim>\<open>main\<close>, status 0), or a
  panic, after which the Go run time exits with status 2.
\<close>

datatype ending = Exit nat | Panicked string

definition exitStatus :: "ending \<Rightarrow> nat" where
  "exitStatus x = (case x of Exit n \<Rightarrow> n | Panicked m \<Rightarrow> 2)"

text \<open>The bytes the events put on standard output.\<close>

fun stdoutOf :: "event list \<Rightarrow> string" where
  "stdoutOf [] = []"
| "stdoutOf (Println s # evs) = s @ nl @ stdoutOf evs"
| "stdoutOf (Printf s # evs) = s @ stdoutOf evs"
| "stdoutOf (Eprintf s # evs) = stdoutOf evs"
| "stdoutOf (Logf s # evs) = stdoutOf evs"

definition terminating :: event where
  "terminating = Println ''Shellfish terminating.''"

text \<open>
  The error exit written eight times between lines 172 and 218: \<^verbatim>\<open>log.Printf\<close> of the
  mode and the error, the notice, \<^verbatim>\<open>os.Exit(1)\<close>.
\<close>

definition fatal :: "string \<Rightarrow> error \<Rightarrow> event list \<times> ending" where
  "fatal mode err =
     ([Logf (''Error running mode '' @ mode @ '':'' @ nl @ err @ nl), terminating], Exit 1)"

text \<open>Lines 169--222 of \<^verbatim>\<open>main\<close>: from \<^verbatim>\<open>getFlags\<close> to the output of the mode.\<close>

definition dispatch ::
  "('c, 'e) world \<Rightarrow> string list \<Rightarrow> ('c, 'e) Mode \<Rightarrow> string list \<Rightarrow> event list \<times> ending" where
  "dispatch w args mode lines =
     (case getFlags args of
        Panic p \<Rightarrow> ([], Panicked p)
      | Done flags \<Rightarrow>
     (case getConfig (globalConfigEnv w) args of (config, ok) \<Rightarrow>
     (case getGlobalConfig (ReadConfig (parseGlobal w) (files w)) (globalConfigEnv w) args of
        Inl err \<Rightarrow> fatal (args ! 1) err
      | Inr (gConfigName, gConfig) \<Rightarrow>
     (case ReadModeConfig mode (files w) (if ok then config else []) of
        Inl err \<Rightarrow> fatal (args ! 1) err
      | Inr modeConfig \<Rightarrow>
     (case checkMemoDir (parseGlobal w) (pathJoin w) (files w) (MemoDir gConfig) gConfigName of
        (Some err, fs) \<Rightarrow> fatal (args ! 1) err
      | (None, fs) \<Rightarrow>
     (case initCatalogs (backend w) fs gConfig (newEnvironment (backend w) (MemoDir gConfig)) of
        Panic p \<Rightarrow> ([], Panicked p)
      | Done (Some err, e) \<Rightarrow> fatal (args ! 1) err
      | Done (None, e) \<Rightarrow>
     (case initHalos (backend w) fs (args ! 1) gConfig e of
        Panic p \<Rightarrow> ([], Panicked p)
      | Done (Some err, e') \<Rightarrow> fatal (args ! 1) err
      | Done (None, e') \<Rightarrow>
     (case Run mode modeConfig fs flags gConfig e' lines of
        Inl err \<Rightarrow> fatal (args ! 1) err
      | Inr out \<Rightarrow> (map Println out, Exit 0)))))))))"

text \<open>Lines 113--128: the output of the \<^verbatim>\<open>help\<close> mode.\<close>

definition helpOutput :: "('c, 'e) world \<Rightarrow> string list \<Rightarrow> event list" where
  "helpOutput w args =
     (if length args - 2 = 0 then [Println (modeDescriptions w)]
      else if length args - 2 = 1 then
        (case helpStrings w (args ! 2) of
           None \<Rightarrow> [Printf (''I don'' @ apo @ ''t recognize the help target '' @ apo @
                            args ! 2 @ apo @ nl)]
         | Some text \<Rightarrow> [Println text])
      else if length args - 2 = 2 then [Println ''The help mode can only take a single argument.'']
      else [])"

text \<open>The failure marker test of lines 162--163.\<close>

definition isMarker :: "string list \<Rightarrow> bool" where
  "isMarker lines \<longleftrightarrow>
     length lines = 1 \<and> 9 \<le> length (lines ! 0) \<and> take 9 (lines ! 0) = ''Shellfish''"

text \<open>The modes of the \<^verbatim>\<open>case\<close> at line 151, which read standard input.\<close>

definition piped :: "string \<Rightarrow> bool" where
  "piped name \<longleftrightarrow>
     name = ''tree'' \<or> name = ''coord'' \<or> name = ''prof'' \<or> name = ''shell'' \<or> name = ''stats''"

definition main :: "('c, 'e) world \<Rightarrow> string list \<Rightarrow> event list \<times> ending" where
  "main w args =
     (if length args \<le> 1 then
        ([Eprintf (''I was not supplied with a mode.'' @ nl @ ''For help, type '' @ apo @
                   ''./shellfish help'' @ apo @ ''.'' @ nl)], Exit 1)
      else if args ! 1 = ''help'' then (helpOutput w args, Exit 0)
      else if args ! 1 = ''version'' then
        ([Printf (''Shellfish version '' @ SourceVersion w @ nl)], Exit 0)
      else if args ! 1 = ''hello'' then
        ([Printf (''Hello back at you! Installation was successful.'' @ nl)], Exit 0)
      else
        (case ModeNames w (args ! 1) of
           None \<Rightarrow>
             ([Eprintf (''You passed me the mode '' @ apo @ args ! 1 @ apo @
                        '', which I don'' @ apo @ ''t recognize.'' @ nl @ ''For help, type '' @
                        apo @ ''./shellfish help'' @ apo @ nl),
               terminating], Exit 1)
         | Some mode \<Rightarrow>
             if piped (args ! 1) then
               (case stdinLines (stdin w) of
                  Inl err \<Rightarrow> ([Eprintf err, terminating], Exit 1)
                | Inr lines \<Rightarrow>
                    if length lines = 0 then ([], Exit 0)
                    else if isMarker lines then ([Println (lines ! 0)], Exit 1)
                    else dispatch w args mode lines)
             else dispatch w args mode []))"

subsection \<open>A concrete installation\<close>

text \<open>
  One instance of every parameter, on which the theorems below are evaluated: a global
  configuration, a parser that knows four file texts, four configuration files, backends
  that always succeed, and a registry whose six modes echo their input lines.
\<close>

definition exConfig :: GlobalConfig where
  "exConfig =
     \<lparr>Version = ''1.0.0'', SnapshotFormat = ''snapdir_%03d/snap.%d'',
      SnapshotType = ''gotetra'', HaloDir = ''halos'', HaloType = ''Text'',
      TreeDir = ''trees'', TreeType = ''consistent-trees'', MemoDir = ''memo'',
      BlockMins = [0], BlockMaxes = [7], SnapMin = 0, SnapMax = 100,
      SnapshotFormatMeanings = [''Snapshot'', ''Block''],
      HaloPositionUnits = ''Mpc/h'', HaloMassUnits = ''Msun/h'',
      HaloValueColumns = [1, 2], HaloValueNames = [''ID'', ''M200m''],
      Endianness = ''LittleEndian'', ValidateFormats = False, Threads = 1\<rparr>"

definition exParse :: "string \<Rightarrow> error + GlobalConfig" where
  "exParse txt =
     (if txt = ''base'' then Inr exConfig
      else if txt = ''HaloType = nil'' then Inr (exConfig\<lparr>HaloType := ''nil''\<rparr>)
      else if txt = ''Threads = 8'' then Inr (exConfig\<lparr>Threads := 8\<rparr>)
      else if txt = ''TreeType = nil'' then Inr (exConfig\<lparr>TreeType := ''nil''\<rparr>)
      else Inl ''cannot parse the configuration'')"

definition exFiles :: fsys where
  "exFiles =
     \<lparr>contents =
        [''g.config'' \<mapsto> ''base'', ''halo.config'' \<mapsto> ''HaloType = nil'',
         ''threads.config'' \<mapsto> ''Threads = 8'', ''notree.config'' \<mapsto> ''TreeType = nil''],
      createErr = (\<lambda>path. None)\<rparr>"

definition exJoin :: "string \<Rightarrow> string \<Rightarrow> string" where
  "exJoin dir file = dir @ ''/'' @ file"

definition exBackends :: "unit backends" where
  "exBackends =
     \<lparr>newEnvironment = (\<lambda>memoDir. ()),
      InitGotetra = (\<lambda>fs g e. (None, e)),
      InitLGadget2 = (\<lambda>fs g e. (None, e)),
      InitARTIO = (\<lambda>fs g e. (None, e)),
      InitTextHalo = (\<lambda>fs g e. (None, e))\<rparr>"

definition exMode :: "(unit, unit) Mode" where
  "exMode =
     \<lparr>ReadModeConfig = (\<lambda>fs name. Inr ()),
      Run = (\<lambda>c fs flags g e lines. Inr lines)\<rparr>"

definition exWorld :: "string \<Rightarrow> error + string \<Rightarrow> (unit, unit) world" where
  "exWorld env input =
     \<lparr>ModeNames =
        (\<lambda>name. if name = ''id'' \<or> name = ''tree'' \<or> name = ''coord'' \<or> name = ''prof'' \<or>
                    name = ''shell'' \<or> name = ''stats''
                 then Some exMode else None),
      helpStrings = Map.empty, modeDescriptions = ''modes'', SourceVersion = ''1.0.0'',
      globalConfigEnv = env, stdin = input, files = exFiles, parseGlobal = exParse,
      pathJoin = exJoin, backend = exBackends\<rparr>"

text \<open>The files once the memoization directory \<^verbatim>\<open>memo\<close> holds the snapshot of \<^verbatim>\<open>g.config\<close>.\<close>

definition exSeeded :: fsys where
  "exSeeded = exFiles\<lparr>contents := (contents exFiles)(''memo/memo.config'' \<mapsto> ''base'')\<rparr>"

section \<open>Verification\<close>

subsection \<open>Properties of the classifier\<close>

lemma configNum_loop_takeWhile:
  "n \<le> length args \<Longrightarrow>
   configNum_loop args n num = num + length (takeWhile isConfig (rev (take n args)))"
proof (induction n arbitrary: num)
  case 0
  then show ?case by simp
next
  case (Suc n)
  then have "take (Suc n) args = take n args @ [args ! n]"
    by (simp add: take_Suc_conv_app_nth)
  with Suc show ?case by simp
qed

lemma configNum_takeWhile: "configNum args = length (takeWhile isConfig (rev args))"
  by (simp add: configNum_def configNum_loop_takeWhile)

lemma configNum_le_length: "configNum args \<le> length args"
  by (metis configNum_takeWhile length_rev length_takeWhile_le)


lemma getFlags_window:
  "configNum args + 2 \<le> length args \<Longrightarrow>
   getFlags args = Done (take (length args - 2 - configNum args) (drop 1 args))"
  by (simp add: getFlags_def slice_def nat_diff_distrib')

lemma configNum_below_mode:
  assumes "2 \<le> length args" and "\<not> isConfig (args ! 1)"
  shows "configNum args + 2 \<le> length args"
proof (rule ccontr)
  assume "\<not> configNum args + 2 \<le> length args"
  then have k: "length args - 2 < length (takeWhile isConfig (rev args))"
    using assms(1) by (simp add: configNum_takeWhile)
  then have "takeWhile isConfig (rev args) ! (length args - 2) \<in> set (takeWhile isConfig (rev args))"
    by (rule nth_mem)
  then have "isConfig (takeWhile isConfig (rev args) ! (length args - 2))"
    by (rule set_takeWhileD [THEN conjunct2])
  moreover have "takeWhile isConfig (rev args) ! (length args - 2) = rev args ! (length args - 2)"
    using k by (rule takeWhile_nth)
  moreover have "rev args ! (length args - 2) = args ! 1"
    using assms(1) by (simp add: rev_nth Suc_diff_Suc)
  ultimately show False
    using assms(2) by simp
qed

lemma getFlags_versus_spec:
  assumes "2 \<le> length args" and "\<not> isConfig (args ! 1)"
  shows "getFlags args =
           Done (if spec_flags args = [] then [] else args ! 1 # butlast (spec_flags args))"
proof -
  define n where "n = length args - 2 - configNum args"
  have le: "configNum args + 2 \<le> length args"
    using assms by (rule configNum_below_mode)
  have flags: "getFlags args = Done (take n (drop 1 args))"
    using getFlags_window [OF le] by (simp add: n_def)
  have spec: "spec_flags args = take n (drop 2 args)"
    by (simp add: spec_flags_def n_def)
  have n_le: "n \<le> length (drop 2 args)"
    by (simp add: n_def)
  show ?thesis
  proof (cases n)
    case 0
    then show ?thesis by (simp add: flags spec)
  next
    case (Suc m)
    have d: "drop (Suc 0) args = args ! Suc 0 # drop 2 args"
      using assms(1) Cons_nth_drop_Suc [of "Suc 0" args] by (simp add: numeral_2_eq_2)
    have "spec_flags args \<noteq> []"
      using Suc n_le by (auto simp add: spec)
    moreover have "butlast (spec_flags args) = take m (drop 2 args)"
      using n_le Suc by (simp add: spec butlast_take)
    ultimately show ?thesis
      using d by (simp add: flags Suc)
  qed
qed

text \<open>
  C1 (the flag sub-list is the tokens strictly between the mode name and the trailing
  configuration files). The slice of \<^verbatim>\<open>getFlags\<close> starts at index 1 and ends one token
  before the configuration files, so it has the right length but sits one place to the
  left: by \<open>getFlags_versus_spec\<close>, whenever the invocation has a flag token the result
  is the mode name followed by the flag tokens without the last. On the invocation
  \<^verbatim>\<open>shellfish id --IDs 7 g.config\<close> it returns the mode name and the first flag token,
  where the specification's sub-list is the two flag tokens.
\<close>

theorem getFlags_shifted:
  "getFlags [''shellfish'', ''id'', ''--IDs'', ''7'', ''g.config''] = Done [''id'', ''--IDs''] \<and>
   spec_flags [''shellfish'', ''id'', ''--IDs'', ''7'', ''g.config''] = [''--IDs'', ''7'']"
  by (simp add: getFlags_def slice_def spec_flags_def configNum_takeWhile isConfig_def)

subsection \<open>Configuration resolution\<close>

lemma last_config_token: "0 < configNum args \<Longrightarrow> args ! (length args - 1) = last args"
  using configNum_le_length [of args] by (cases "args = []") (simp_all add: last_conv_nth)

text \<open>
  C3 (no environment override). With \<^verbatim>\<open>$SHELLFISH_GLOBAL_CONFIG\<close> unset, the number of
  trailing \<^verbatim>\<open>.config\<close> tokens decides: none is the error "No config files provided",
  three or more the error "Passed too many config files"; with one, the last token is
  the file read as the global configuration and there is no mode configuration file;
  with two, the second-to-last token is read as the global configuration and the last
  is the mode configuration file. The result of the resolver is that of reading the
  chosen file.
\<close>

theorem getGlobalConfig_no_env:
  assumes "env = []"
  shows "(length (takeWhile isConfig (rev args)) = 0 \<longrightarrow>
            getGlobalConfig rd env args =
              Inl ''No config files provided in command line arguments.'') \<and>
         (3 \<le> length (takeWhile isConfig (rev args)) \<longrightarrow>
            getGlobalConfig rd env args = Inl ''Passed too many config files as arguments.'') \<and>
         (length (takeWhile isConfig (rev args)) = 1 \<longrightarrow>
            getGlobalConfig rd env args =
              (case rd (last args) of Inl err \<Rightarrow> Inl err
               | Inr config \<Rightarrow> Inr (last args, config)) \<and>
            getConfig env args = ([], False)) \<and>
         (length (takeWhile isConfig (rev args)) = 2 \<longrightarrow>
            getGlobalConfig rd env args =
              (case rd (args ! (length args - 2)) of Inl err \<Rightarrow> Inl err
               | Inr config \<Rightarrow> Inr (args ! (length args - 2), config)) \<and>
            getConfig env args = (last args, True))"
proof -
  have cn: "configNum args = length (takeWhile isConfig (rev args))"
    by (rule configNum_takeWhile)
  show ?thesis
    using assms last_config_token [of args]
    by (auto simp add: getGlobalConfig_def getConfig_def cn [symmetric] split: sum.splits)
qed

theorem getGlobalConfig_no_env_witness:
  "getGlobalConfig (ReadConfig exParse exFiles) [] [''shellfish'', ''id''] =
     Inl ''No config files provided in command line arguments.'' \<and>
   getGlobalConfig (ReadConfig exParse exFiles) []
       [''shellfish'', ''id'', ''a.config'', ''g.config'', ''id.config''] =
     Inl ''Passed too many config files as arguments.'' \<and>
   getGlobalConfig (ReadConfig exParse exFiles) [] [''shellfish'', ''id'', ''g.config''] =
     Inr (''g.config'', exConfig) \<and>
   getConfig [] [''shellfish'', ''id'', ''g.config''] = ([], False) \<and>
   getGlobalConfig (ReadConfig exParse exFiles) []
       [''shellfish'', ''id'', ''g.config'', ''id.config''] =
     Inr (''g.config'', exConfig) \<and>
   getConfig [] [''shellfish'', ''id'', ''g.config'', ''id.config''] = (''id.config'', True)"
  using getGlobalConfig_no_env [OF refl, of "[''shellfish'', ''id'']" "ReadConfig exParse exFiles"]
    getGlobalConfig_no_env [OF refl,
      of "[''shellfish'', ''id'', ''a.config'', ''g.config'', ''id.config'']"
         "ReadConfig exParse exFiles"]
    getGlobalConfig_no_env [OF refl, of "[''shellfish'', ''id'', ''g.config'']"
      "ReadConfig exParse exFiles"]
    getGlobalConfig_no_env [OF refl, of "[''shellfish'', ''id'', ''g.config'', ''id.config'']"
      "ReadConfig exParse exFiles"]
  by (simp add: isConfig_def ReadConfig_def exFiles_def exParse_def)

text \<open>
  C6 (environment override). With \<^verbatim>\<open>$SHELLFISH_GLOBAL_CONFIG\<close> set, more than one
  trailing \<^verbatim>\<open>.config\<close> token is the error "you may only pass a single config file";
  with none, the file the variable names is read as the global configuration and there
  is no mode configuration file; with one, the file the variable names is read as the
  global configuration and the token is the mode configuration file.
\<close>

theorem getGlobalConfig_env:
  assumes "env \<noteq> []"
  shows "(1 < length (takeWhile isConfig (rev args)) \<longrightarrow>
            getGlobalConfig rd env args =
              Inl ''$SHELLFISH_GLOBAL_CONFIG has been set, so you may only pass a single config file as a parameter.'') \<and>
         (length (takeWhile isConfig (rev args)) = 0 \<longrightarrow>
            getGlobalConfig rd env args =
              (case rd env of Inl err \<Rightarrow> Inl err | Inr config \<Rightarrow> Inr (env, config)) \<and>
            getConfig env args = ([], False)) \<and>
         (length (takeWhile isConfig (rev args)) = 1 \<longrightarrow>
            getGlobalConfig rd env args =
              (case rd env of Inl err \<Rightarrow> Inl err | Inr config \<Rightarrow> Inr (env, config)) \<and>
            getConfig env args = (last args, True))"
proof -
  have cn: "configNum args = length (takeWhile isConfig (rev args))"
    by (rule configNum_takeWhile)
  show ?thesis
    using assms last_config_token [of args]
    by (auto simp add: getGlobalConfig_def getConfig_def cn [symmetric] split: sum.splits)
qed

theorem getGlobalConfig_env_witness:
  "getGlobalConfig (ReadConfig exParse exFiles) ''g.config''
       [''shellfish'', ''id'', ''g.config'', ''id.config''] =
     Inl ''$SHELLFISH_GLOBAL_CONFIG has been set, so you may only pass a single config file as a parameter.'' \<and>
   getGlobalConfig (ReadConfig exParse exFiles) ''g.config'' [''shellfish'', ''id''] =
     Inr (''g.config'', exConfig) \<and>
   getConfig ''g.config'' [''shellfish'', ''id''] = ([], False) \<and>
   getGlobalConfig (ReadConfig exParse exFiles) ''g.config''
       [''shellfish'', ''id'', ''id.config''] =
     Inr (''g.config'', exConfig) \<and>
   getConfig ''g.config'' [''shellfish'', ''id'', ''id.config''] = (''id.config'', True)"
proof -
  have set: "''g.config'' \<noteq> []" by simp
  show ?thesis
    using getGlobalConfig_env [OF set, of "[''shellfish'', ''id'', ''g.config'', ''id.config'']"
        "ReadConfig exParse exFiles"]
      getGlobalConfig_env [OF set, of "[''shellfish'', ''id'']" "ReadConfig exParse exFiles"]
      getGlobalConfig_env [OF set, of "[''shellfish'', ''id'', ''id.config'']"
        "ReadConfig exParse exFiles"]
    by (simp add: isConfig_def ReadConfig_def exFiles_def exParse_def)
qed

subsection \<open>Cache-validity equality and the memoization guard\<close>

lemma elems_loop_iff: "elems_loop xs ys is \<longleftrightarrow> (\<forall>i \<in> set is. xs ! i = ys ! i)"
  by (induction "is") auto

lemma elems_loop_upt:
  "length xs = length ys \<Longrightarrow> elems_loop xs ys [0..<length xs] \<longleftrightarrow> xs = ys"
  unfolding elems_loop_iff list_eq_iff_nth_eq [of xs ys] by auto

lemma int64sEqual_iff: "int64sEqual xs ys \<longleftrightarrow> xs = ys"
  using elems_loop_upt [of xs ys] by (cases "length xs = length ys") (auto simp add: int64sEqual_def)

lemma stringsEqual_iff: "stringsEqual xs ys \<longleftrightarrow> xs = ys"
  using elems_loop_upt [of xs ys] by (cases "length xs = length ys") (auto simp add: stringsEqual_def)

lemma configEqual_fields:
  "configEqual m c \<longleftrightarrow>
     Version c = Version m \<and> SnapshotFormat c = SnapshotFormat m \<and>
     SnapshotType c = SnapshotType m \<and> HaloDir c = HaloDir m \<and>
     HaloType c = HaloType m \<and> TreeDir c = TreeDir m \<and> MemoDir c = MemoDir m \<and>
     BlockMins c = BlockMins m \<and> BlockMaxes c = BlockMaxes m \<and>
     SnapMin c = SnapMin m \<and> SnapMax c = SnapMax m \<and>
     SnapshotFormatMeanings c = SnapshotFormatMeanings m \<and>
     HaloPositionUnits c = HaloPositionUnits m \<and> HaloMassUnits c = HaloMassUnits m \<and>
     HaloValueColumns c = HaloValueColumns m \<and> HaloValueNames c = HaloValueNames m \<and>
     Endianness c = Endianness m"
  by (simp only: configEqual_def int64sEqual_iff stringsEqual_iff)

lemma configEqual_refl: "configEqual c c"
  by (simp add: configEqual_fields)

text \<open>
  C7 as stated (the equality does not depend on the memoization directory field) fails:
  \<^verbatim>\<open>configEqual\<close> has the conjunct \<^verbatim>\<open>c.MemoDir == m.MemoDir\<close>. Two configurations that
  differ in nothing but \<^verbatim>\<open>MemoDir\<close> compare unequal.
\<close>

theorem configEqual_MemoDir_counterexample:
  "MemoDir (exConfig\<lparr>MemoDir := ''memo2''\<rparr>) = ''memo2'' \<and> MemoDir exConfig = ''memo'' \<and>
   \<not> configEqual exConfig (exConfig\<lparr>MemoDir := ''memo2''\<rparr>)"
  by (simp add: configEqual_fields exConfig_def)

text \<open>
  C7 as amended: \<^verbatim>\<open>configEqual\<close> holds exactly when the two configurations agree on
  seventeen fields, the memoization directory among them, so configurations that
  differ in \<^verbatim>\<open>MemoDir\<close> compare unequal; the fields \<^verbatim>\<open>Threads\<close>, \<^verbatim>\<open>TreeType\<close> and
  \<^verbatim>\<open>ValidateFormats\<close> have no part in it.
\<close>

theorem configEqual_MemoDir:
  "(configEqual m c \<longleftrightarrow>
     Version c = Version m \<and> SnapshotFormat c = SnapshotFormat m \<and>
     SnapshotType c = SnapshotType m \<and> HaloDir c = HaloDir m \<and>
     HaloType c = HaloType m \<and> TreeDir c = TreeDir m \<and> MemoDir c = MemoDir m \<and>
     BlockMins c = BlockMins m \<and> BlockMaxes c = BlockMaxes m \<and>
     SnapMin c = SnapMin m \<and> SnapMax c = SnapMax m \<and>
     SnapshotFormatMeanings c = SnapshotFormatMeanings m \<and>
     HaloPositionUnits c = HaloPositionUnits m \<and> HaloMassUnits c = HaloMassUnits m \<and>
     HaloValueColumns c = HaloValueColumns m \<and> HaloValueNames c = HaloValueNames m \<and>
     Endianness c = Endianness m) \<and>
   (MemoDir c \<noteq> MemoDir m \<longrightarrow> \<not> configEqual m c) \<and>
   configEqual m (c\<lparr>Threads := t, TreeType := tt, ValidateFormats := v\<rparr>) = configEqual m c"
  by (simp add: configEqual_fields)

theorem configEqual_MemoDir_witness:
  "\<not> configEqual exConfig (exConfig\<lparr>MemoDir := ''elsewhere''\<rparr>) \<and>
   configEqual exConfig (exConfig\<lparr>Threads := 8, TreeType := ''nil'', ValidateFormats := True\<rparr>)"
  using configEqual_MemoDir [where m = exConfig and c = "exConfig\<lparr>MemoDir := ''elsewhere''\<rparr>"]
    configEqual_MemoDir [where m = exConfig and c = exConfig and t = 8 and tt = "''nil''"
      and v = True]
  by (simp add: exConfig_def)

text \<open>
  C5 (memoization idempotence). On files where the snapshot \<^verbatim>\<open>memo.config\<close> is absent
  and can be created, and the configuration file holds a text that parses to \<open>C\<close>,
  the first call of \<^verbatim>\<open>checkMemoDir\<close> succeeds and leaves the files with the
  configuration file's text as the snapshot; the second call on those files succeeds
  and leaves them as they are.
\<close>

theorem checkMemoDir_seed_then_validate:
  assumes fresh: "contents fs (join memoDir ''memo.config'') = None"
    and cfile: "contents fs configFile = Some body"
    and conf: "parse body = Inr C"
    and creat: "createErr fs (join memoDir ''memo.config'') = None"
    and after: "fs' = fs\<lparr>contents := (contents fs)(join memoDir ''memo.config'' \<mapsto> body)\<rparr>"
  shows "checkMemoDir parse join fs memoDir configFile = (None, fs') \<and>
         contents fs' (join memoDir ''memo.config'') = contents fs configFile \<and>
         checkMemoDir parse join fs' memoDir configFile = (None, fs')"
proof -
  have ne: "join memoDir ''memo.config'' \<noteq> configFile"
    using fresh cfile by auto
  have first: "checkMemoDir parse join fs memoDir configFile = (None, fs')"
    using fresh cfile creat ne by (simp add: checkMemoDir_def copyFile_def after)
  have snap: "contents fs' (join memoDir ''memo.config'') = contents fs configFile"
    by (simp add: after cfile)
  have rd1: "ReadConfig parse fs' configFile = Inr C"
    using ne cfile conf by (simp add: ReadConfig_def after)
  have rd2: "ReadConfig parse fs' (join memoDir ''memo.config'') = Inr C"
    using snap cfile conf by (simp add: ReadConfig_def)
  have second: "checkMemoDir parse join fs' memoDir configFile = (None, fs')"
    using snap cfile rd1 rd2 by (simp add: checkMemoDir_def configEqual_refl)
  from first snap second show ?thesis by simp
qed

theorem checkMemoDir_seed_then_validate_witness:
  "checkMemoDir exParse exJoin exFiles ''memo'' ''g.config'' = (None, exSeeded) \<and>
   contents exSeeded ''memo/memo.config'' = Some ''base'' \<and>
   checkMemoDir exParse exJoin exSeeded ''memo'' ''g.config'' = (None, exSeeded)"
  using checkMemoDir_seed_then_validate [where fs = exFiles and join = exJoin
      and memoDir = "''memo''" and configFile = "''g.config''" and body = "''base''"
      and parse = exParse and C = exConfig and fs' = exSeeded]
  by (simp add: exFiles_def exJoin_def exParse_def exSeeded_def)

text \<open>
  C4 (memoization rejection). Let the first call have seeded the snapshot from a file
  that reads as \<open>C\<close>, and let a later call, on files where the snapshot is untouched,
  validate the file \<open>configFile'\<close>, which reads as \<open>C'\<close>. If \<open>C'\<close> and \<open>C\<close> differ in one
  of the seventeen compared fields, the halo type among them, the call returns the
  error whose message is written out below, and changes no file; the message holds the
  name of the configuration file and the name of the snapshot file. If they agree on
  the seventeen fields, as they do when they differ in \<^verbatim>\<open>Threads\<close> only, the call succeeds.
\<close>

theorem checkMemoDir_rejects:
  assumes fresh: "contents fs (join memoDir ''memo.config'') = None"
    and seed: "checkMemoDir parse join fs memoDir configFile = (None, fs')"
    and conf: "ReadConfig parse fs configFile = Inr C"
    and snapshot: "contents fs'' (join memoDir ''memo.config'') =
               contents fs' (join memoDir ''memo.config'')"
    and conf': "ReadConfig parse fs'' configFile' = Inr C'"
  shows "((Version C' \<noteq> Version C \<or> SnapshotFormat C' \<noteq> SnapshotFormat C \<or>
           SnapshotType C' \<noteq> SnapshotType C \<or> HaloDir C' \<noteq> HaloDir C \<or>
           HaloType C' \<noteq> HaloType C \<or> TreeDir C' \<noteq> TreeDir C \<or>
           MemoDir C' \<noteq> MemoDir C \<or> BlockMins C' \<noteq> BlockMins C \<or>
           BlockMaxes C' \<noteq> BlockMaxes C \<or> SnapMin C' \<noteq> SnapMin C \<or>
           SnapMax C' \<noteq> SnapMax C \<or>
           SnapshotFormatMeanings C' \<noteq> SnapshotFormatMeanings C \<or>
           HaloPositionUnits C' \<noteq> HaloPositionUnits C \<or>
           HaloMassUnits C' \<noteq> HaloMassUnits C \<or>
           HaloValueColumns C' \<noteq> HaloValueColumns C \<or>
           HaloValueNames C' \<noteq> HaloValueNames C \<or> Endianness C' \<noteq> Endianness C) \<longrightarrow>
          checkMemoDir parse join fs'' memoDir configFile' =
            (Some (''The variables in the config file '' @ apo @ configFile' @ apo @
                   '' do not match the varables used when creating the MemoDir, '' @ apo @
                   memoDir @ ''.'' @ apo @
                   '' These variables can be compared by inspecting '' @ apo @ configFile' @
                   apo @ '' and '' @ apo @ join memoDir ''memo.config'' @ apo), fs'') \<and>
          (\<exists>err before between after.
             fst (checkMemoDir parse join fs'' memoDir configFile') = Some err \<and>
             err = before @ configFile' @ between @ join memoDir ''memo.config'' @ after)) \<and>
         (Version C' = Version C \<and> SnapshotFormat C' = SnapshotFormat C \<and>
          SnapshotType C' = SnapshotType C \<and> HaloDir C' = HaloDir C \<and>
          HaloType C' = HaloType C \<and> TreeDir C' = TreeDir C \<and>
          MemoDir C' = MemoDir C \<and> BlockMins C' = BlockMins C \<and>
          BlockMaxes C' = BlockMaxes C \<and> SnapMin C' = SnapMin C \<and>
          SnapMax C' = SnapMax C \<and>
          SnapshotFormatMeanings C' = SnapshotFormatMeanings C \<and>
          HaloPositionUnits C' = HaloPositionUnits C \<and>
          HaloMassUnits C' = HaloMassUnits C \<and>
          HaloValueColumns C' = HaloValueColumns C \<and>
          HaloValueNames C' = HaloValueNames C \<and> Endianness C' = Endianness C \<longrightarrow>
          checkMemoDir parse join fs'' memoDir configFile' = (None, fs'')) \<and>
         (C' = C\<lparr>Threads := t\<rparr> \<longrightarrow>
          checkMemoDir parse join fs'' memoDir configFile' = (None, fs''))"
proof -
  obtain t0 where cfile: "contents fs configFile = Some t0" and p: "parse t0 = Inr C"
    using conf by (auto simp add: ReadConfig_def split: option.splits)
  have ne: "join memoDir ''memo.config'' \<noteq> configFile"
    using fresh cfile by auto
  have "contents fs' (join memoDir ''memo.config'') = Some t0"
    using seed fresh cfile ne
    by (auto simp add: checkMemoDir_def copyFile_def Let_def split: option.splits)
  with snapshot have memo: "contents fs'' (join memoDir ''memo.config'') = Some t0"
    by simp
  with p have rd: "ReadConfig parse fs'' (join memoDir ''memo.config'') = Inr C"
    by (simp add: ReadConfig_def)
  have differ:
    "\<not> configEqual C' C \<Longrightarrow>
     checkMemoDir parse join fs'' memoDir configFile' =
       (Some (''The variables in the config file '' @ apo @ configFile' @ apo @
              '' do not match the varables used when creating the MemoDir, '' @ apo @
              memoDir @ ''.'' @ apo @
              '' These variables can be compared by inspecting '' @ apo @ configFile' @
              apo @ '' and '' @ apo @ join memoDir ''memo.config'' @ apo), fs'')"
    using memo rd conf' by (simp add: checkMemoDir_def mismatchError_def)
  have names:
    "\<not> configEqual C' C \<Longrightarrow>
     \<exists>err before between after.
       fst (checkMemoDir parse join fs'' memoDir configFile') = Some err \<and>
       err = before @ configFile' @ between @ join memoDir ''memo.config'' @ after"
  proof -
    assume "\<not> configEqual C' C"
    then have "fst (checkMemoDir parse join fs'' memoDir configFile') =
        Some ((''The variables in the config file '' @ apo) @ configFile' @
              (apo @ '' do not match the varables used when creating the MemoDir, '' @ apo @
               memoDir @ ''.'' @ apo @
               '' These variables can be compared by inspecting '' @ apo @ configFile' @
               apo @ '' and '' @ apo) @ join memoDir ''memo.config'' @ apo)"
      using differ by simp
    then show ?thesis by blast
  qed
  have agree: "configEqual C' C \<Longrightarrow>
     checkMemoDir parse join fs'' memoDir configFile' = (None, fs'')"
    using memo rd conf' by (simp add: checkMemoDir_def)
  have threads: "C' = C\<lparr>Threads := t\<rparr> \<Longrightarrow> configEqual C' C"
    by (simp add: configEqual_fields)
  have fields:
    "configEqual C' C \<longleftrightarrow>
       Version C' = Version C \<and> SnapshotFormat C' = SnapshotFormat C \<and>
       SnapshotType C' = SnapshotType C \<and> HaloDir C' = HaloDir C \<and>
       HaloType C' = HaloType C \<and> TreeDir C' = TreeDir C \<and>
       MemoDir C' = MemoDir C \<and> BlockMins C' = BlockMins C \<and>
       BlockMaxes C' = BlockMaxes C \<and> SnapMin C' = SnapMin C \<and>
       SnapMax C' = SnapMax C \<and>
       SnapshotFormatMeanings C' = SnapshotFormatMeanings C \<and>
       HaloPositionUnits C' = HaloPositionUnits C \<and>
       HaloMassUnits C' = HaloMassUnits C \<and>
       HaloValueColumns C' = HaloValueColumns C \<and>
       HaloValueNames C' = HaloValueNames C \<and> Endianness C' = Endianness C"
    unfolding configEqual_fields [of C' C] by (intro iffI; elim conjE; intro conjI; (erule sym)?)
  have one: "C' = C\<lparr>Threads := t\<rparr> \<longrightarrow>
      checkMemoDir parse join fs'' memoDir configFile' = (None, fs'')"
    using agree threads by blast
  show ?thesis
  proof (intro conjI impI)
    assume d: "Version C' \<noteq> Version C \<or> SnapshotFormat C' \<noteq> SnapshotFormat C \<or>
           SnapshotType C' \<noteq> SnapshotType C \<or> HaloDir C' \<noteq> HaloDir C \<or>
           HaloType C' \<noteq> HaloType C \<or> TreeDir C' \<noteq> TreeDir C \<or>
           MemoDir C' \<noteq> MemoDir C \<or> BlockMins C' \<noteq> BlockMins C \<or>
           BlockMaxes C' \<noteq> BlockMaxes C \<or> SnapMin C' \<noteq> SnapMin C \<or>
           SnapMax C' \<noteq> SnapMax C \<or>
           SnapshotFormatMeanings C' \<noteq> SnapshotFormatMeanings C \<or>
           HaloPositionUnits C' \<noteq> HaloPositionUnits C \<or>
           HaloMassUnits C' \<noteq> HaloMassUnits C \<or>
           HaloValueColumns C' \<noteq> HaloValueColumns C \<or>
           HaloValueNames C' \<noteq> HaloValueNames C \<or> Endianness C' \<noteq> Endianness C"
    then have neq: "\<not> configEqual C' C"
      unfolding fields by blast
    from differ [OF neq] show "checkMemoDir parse join fs'' memoDir configFile' =
            (Some (''The variables in the config file '' @ apo @ configFile' @ apo @
                   '' do not match the varables used when creating the MemoDir, '' @ apo @
                   memoDir @ ''.'' @ apo @
                   '' These variables can be compared by inspecting '' @ apo @ configFile' @
                   apo @ '' and '' @ apo @ join memoDir ''memo.config'' @ apo), fs'')" .
    from names [OF neq] show "\<exists>err before between after.
             fst (checkMemoDir parse join fs'' memoDir configFile') = Some err \<and>
             err = before @ configFile' @ between @ join memoDir ''memo.config'' @ after" .
  next
    assume "Version C' = Version C \<and> SnapshotFormat C' = SnapshotFormat C \<and>
          SnapshotType C' = SnapshotType C \<and> HaloDir C' = HaloDir C \<and>
          HaloType C' = HaloType C \<and> TreeDir C' = TreeDir C \<and>
          MemoDir C' = MemoDir C \<and> BlockMins C' = BlockMins C \<and>
          BlockMaxes C' = BlockMaxes C \<and> SnapMin C' = SnapMin C \<and>
          SnapMax C' = SnapMax C \<and>
          SnapshotFormatMeanings C' = SnapshotFormatMeanings C \<and>
          HaloPositionUnits C' = HaloPositionUnits C \<and>
          HaloMassUnits C' = HaloMassUnits C \<and>
          HaloValueColumns C' = HaloValueColumns C \<and>
          HaloValueNames C' = HaloValueNames C \<and> Endianness C' = Endianness C"
    then have "configEqual C' C"
      unfolding fields .
    then show "checkMemoDir parse join fs'' memoDir configFile' = (None, fs'')"
      by (rule agree)
  next
    assume "C' = C\<lparr>Threads := t\<rparr>"
    then show "checkMemoDir parse join fs'' memoDir configFile' = (None, fs'')"
      using one by blast
  qed
qed

theorem checkMemoDir_rejects_witness:
  "checkMemoDir exParse exJoin exSeeded ''memo'' ''halo.config'' =
     (Some (''The variables in the config file '' @ apo @ ''halo.config'' @ apo @
            '' do not match the varables used when creating the MemoDir, '' @ apo @
            ''memo.'' @ apo @ '' These variables can be compared by inspecting '' @ apo @
            ''halo.config'' @ apo @ '' and '' @ apo @ ''memo/memo.config'' @ apo), exSeeded) \<and>
   checkMemoDir exParse exJoin exSeeded ''memo'' ''threads.config'' = (None, exSeeded)"
proof -
  have fresh: "contents exFiles (exJoin ''memo'' ''memo.config'') = None"
    by (simp add: exFiles_def exJoin_def)
  have seed: "checkMemoDir exParse exJoin exFiles ''memo'' ''g.config'' = (None, exSeeded)"
    by (simp add: checkMemoDir_def copyFile_def exFiles_def exJoin_def exSeeded_def)
  have conf: "ReadConfig exParse exFiles ''g.config'' = Inr exConfig"
    by (simp add: ReadConfig_def exFiles_def exParse_def)
  have halo: "ReadConfig exParse exSeeded ''halo.config'' = Inr (exConfig\<lparr>HaloType := ''nil''\<rparr>)"
    by (simp add: ReadConfig_def exFiles_def exParse_def exSeeded_def)
  have threads: "ReadConfig exParse exSeeded ''threads.config'' = Inr (exConfig\<lparr>Threads := 8\<rparr>)"
    by (simp add: ReadConfig_def exFiles_def exParse_def exSeeded_def)
  have nil: "HaloType (exConfig\<lparr>HaloType := ''nil''\<rparr>) \<noteq> HaloType exConfig"
    by (simp add: exConfig_def)
  show ?thesis
    using checkMemoDir_rejects [OF fresh seed conf refl halo, where t = 8]
      checkMemoDir_rejects [OF fresh seed conf refl threads, where t = 8] nil
    by (simp add: exJoin_def)
qed

subsection \<open>Backend initialization\<close>

lemmas ex_defs = exWorld_def exFiles_def exParse_def exJoin_def exBackends_def exMode_def
  exConfig_def

lemma initHalos_eq:
  "initHalos b fs mode g e =
     (if mode = ''shell'' \<or> mode = ''stats'' \<or> mode = ''prof'' then Done (None, e)
      else if HaloType g = ''nil'' then
        Done (Some (''You may not use nil as a HaloType for the mode '' @ apo @ mode @
                    ''.'' @ apo @ nl), e)
      else if HaloType g = ''Text'' then Done (InitTextHalo b fs g e)
      else if TreeType g = ''nil'' then
        Done (Some (''You may not use nil as a TreeType for the mode '' @ apo @ mode @
                    ''.'' @ apo @ nl), e)
      else Panic ''Impossible'')"
  by (simp add: initHalos_def initHalos_body_def andThen_def)

lemma initHalos_trace_eq:
  "initHalos_trace b fs mode g e =
     (if mode = ''shell'' \<or> mode = ''stats'' \<or> mode = ''prof'' then [418, 419, 420]
      else if HaloType g = ''nil'' then [418, 423, 424, 425]
      else if HaloType g = ''Text'' then [418, 423, 427, 428]
      else if TreeType g = ''nil'' then [418, 423, 434, 435]
      else [418, 423, 434, 439])"
  by (simp add: initHalos_trace_def initHalos_body_def andThen_def)

text \<open>
  C10 (dead tree-type check). No call of \<^verbatim>\<open>initHalos\<close> executes line 429, the test
  \<^verbatim>\<open>gConfig.TreeType != "consistent-trees"\<close>, nor the \<^verbatim>\<open>return\<close> at line 430 that it
  guards: in the \<^verbatim>\<open>"Text"\<close> case they follow the \<^verbatim>\<open>return\<close> of line 428.
\<close>

theorem tree_check_unreachable:
  "429 \<notin> set (initHalos_trace b fs mode gConfig e) \<and>
   430 \<notin> set (initHalos_trace b fs mode gConfig e)"
  by (simp add: initHalos_trace_eq)

lemma initHalos_Text:
  assumes "mode \<noteq> ''shell''" and "mode \<noteq> ''stats''" and "mode \<noteq> ''prof''"
    and "HaloType g = ''Text''"
  shows "initHalos b fs mode g e = Done (InitTextHalo b fs g e)"
    and "434 \<notin> set (initHalos_trace b fs mode g e)"
  using assms by (simp_all add: initHalos_eq initHalos_trace_eq)

text \<open>
  C2 (a disabled backend type is a fatal configuration error naming the mode, exit
  status 1). For the mode \<^verbatim>\<open>id\<close>, which is outside the exclusion set of line 419, and a
  global configuration with the halo type \<^verbatim>\<open>Text\<close> and the tree type \<^verbatim>\<open>nil\<close>,
  \<^verbatim>\<open>initHalos\<close> returns what \<^verbatim>\<open>InitTextHalo\<close> returns, here success: the \<^verbatim>\<open>return\<close> of
  line 428 comes before every test of the tree type, so the test of line 434 is not
  executed. The process goes on to run the mode and exits with status 0.
\<close>

theorem text_halo_skips_tree_check:
  "HaloType (exConfig\<lparr>TreeType := ''nil''\<rparr>) = ''Text'' \<and>
   TreeType (exConfig\<lparr>TreeType := ''nil''\<rparr>) = ''nil'' \<and>
   initHalos exBackends exFiles ''id'' (exConfig\<lparr>TreeType := ''nil''\<rparr>) () = Done (None, ()) \<and>
   initHalos_trace exBackends exFiles ''id'' (exConfig\<lparr>TreeType := ''nil''\<rparr>) () =
     [418, 423, 427, 428] \<and>
   main (exWorld [] (Inr [])) [''shellfish'', ''id'', ''notree.config''] = ([], Exit 0)"
  by (simp add: main_def dispatch_def getFlags_def slice_def getConfig_def getGlobalConfig_def
      configNum_takeWhile isConfig_def ReadConfig_def checkMemoDir_def copyFile_def
      initCatalogs_def initHalos_eq initHalos_trace_eq piped_def ex_defs)

subsection \<open>The dispatcher\<close>

lemma split_nl_line: "CHR 0x0A \<notin> set s \<Longrightarrow> split_nl s = [s]"
  by (induction s) auto

lemma split_nl_append: "CHR 0x0A \<notin> set s \<Longrightarrow> split_nl (s @ nl @ t) = s # split_nl t"
  by (induction s) (auto simp add: nl_def)

lemma stdinLines_one:
  assumes "CHR 0x0A \<notin> set line" and "line \<noteq> []" and "input = line \<or> input = line @ nl"
  shows "stdinLines (Inr input) = Inr [line]"
proof -
  have "split_nl (line @ nl) = [line, []]"
    using split_nl_append [OF assms(1), of "[]"] by simp
  then show ?thesis
    using assms split_nl_line [OF assms(1)] by (auto simp add: stdinLines_def)
qed

text \<open>
  C9 (pipe short-circuit). For a registered mode that reads standard input, when the
  input is one line that begins with \<^verbatim>\<open>Shellfish\<close>, with or without its final newline,
  the process prints that line and exits with status 1. The outcome does not depend on
  the mode: neither its \<^verbatim>\<open>ReadConfig\<close> nor its \<^verbatim>\<open>Run\<close> is called.
\<close>

theorem marker_short_circuit:
  assumes "1 < length args" and "piped (args ! 1)" and "ModeNames w (args ! 1) = Some mode"
    and "stdin w = Inr input" and "input = line \<or> input = line @ nl"
    and "CHR 0x0A \<notin> set line" and "take 9 line = ''Shellfish''"
  shows "main w args = ([Println line], Exit 1) \<and> stdoutOf (fst (main w args)) = line @ nl"
proof -
  have ne: "line \<noteq> []" and len: "9 \<le> length line"
    using assms(7) by (auto dest: arg_cong [where f = length])
  have lines: "stdinLines (stdin w) = Inr [line]"
    using stdinLines_one [OF assms(6) ne assms(5)] assms(4) by simp
  have marker: "isMarker [line]"
    using assms(7) len by (simp add: isMarker_def)
  have "main w args = ([Println line], Exit 1)"
    using assms(1,2,3) lines marker by (auto simp add: main_def piped_def)
  then show ?thesis by simp
qed

theorem marker_short_circuit_witness:
  "main (exWorld [] (Inr (''Shellfish terminating.'' @ nl))) [''shellfish'', ''shell''] =
     ([Println ''Shellfish terminating.''], Exit 1) \<and>
   stdoutOf (fst (main (exWorld [] (Inr (''Shellfish terminating.'' @ nl)))
                    [''shellfish'', ''shell''])) = ''Shellfish terminating.'' @ nl"
  using marker_short_circuit [where w = "exWorld [] (Inr (''Shellfish terminating.'' @ nl))"
      and args = "[''shellfish'', ''shell'']" and mode = exMode
      and input = "''Shellfish terminating.'' @ nl" and line = "''Shellfish terminating.''"]
  by (simp add: piped_def exWorld_def)

lemma dispatch_cases:
  "(\<exists>err. dispatch w args mode lines = fatal (args ! 1) err) \<or>
   (\<exists>p. dispatch w args mode lines = ([], Panicked p)) \<or>
   (\<exists>out. dispatch w args mode lines = (map Println out, Exit 0))"
  by (auto simp add: dispatch_def split: outcome.split sum.split prod.split option.split)

lemma dispatch_exit:
  assumes "snd (dispatch w args mode lines) = Exit n" and "n \<noteq> 0"
  shows "n = 1 \<and> fst (dispatch w args mode lines) \<noteq> [] \<and>
         last (fst (dispatch w args mode lines)) = terminating"
  using dispatch_cases [of w args mode lines] assms by (auto simp add: fatal_def)

text \<open>
  C8 as stated (every fatal path prints the terminating notice) fails on the failure
  marker path: the process prints the marker line it read and nothing else.
\<close>

theorem marker_counterexample:
  "main (exWorld [] (Inr ''Shellfish: the upstream stage failed'')) [''shellfish'', ''coord''] =
     ([Println ''Shellfish: the upstream stage failed''], Exit 1) \<and>
   terminating \<notin> set (fst (main (exWorld [] (Inr ''Shellfish: the upstream stage failed''))
                            [''shellfish'', ''coord'']))"
  by (simp add: main_def piped_def stdinLines_def isMarker_def terminating_def ex_defs)

text \<open>
  C8 as amended. When a mode token was supplied and the process exits with a status
  other than 0, the status is 1 and either the last event is the terminating notice on
  standard output, or the mode reads standard input, the input was a failure marker,
  and the only event is the marker line printed back.
\<close>

theorem fatal_exit_notice:
  assumes "1 < length args" and "snd (main w args) = Exit n" and "n \<noteq> 0"
  shows "n = 1 \<and>
         ((fst (main w args) \<noteq> [] \<and> last (fst (main w args)) = terminating) \<or>
          (piped (args ! 1) \<and>
           (\<exists>lines. stdinLines (stdin w) = Inr lines \<and> isMarker lines \<and>
                    fst (main w args) = [Println (lines ! 0)])))"
  using assms dispatch_exit [of w args _ _ n]
  by (auto simp add: main_def split: option.splits sum.splits if_splits)

theorem fatal_exit_notice_witness:
  "snd (main (exWorld [] (Inr [])) [''shellfish'', ''bogus'']) = Exit 1 \<and>
   last (fst (main (exWorld [] (Inr [])) [''shellfish'', ''bogus''])) = terminating"
proof -
  have ex: "snd (main (exWorld [] (Inr [])) [''shellfish'', ''bogus'']) = Exit 1"
    by (simp add: main_def exWorld_def)
  show ?thesis
    using fatal_exit_notice [OF _ ex] ex by (simp add: piped_def)
qed

end
